theory Spec2Isabelle
  imports Main "HOL-Library.Sublist"
begin

section \<open>The swc transpiler of ts-node: \<^verbatim>\<open>src/transpilers/swc.ts\<close>\<close>

text \<open>
  A shallow embedding of \<^verbatim>\<open>create\<close> and \<^verbatim>\<open>createSwcOptions\<close>. JavaScript values that
  may be \<^verbatim>\<open>undefined\<close> are options (\<open>None\<close> is \<^verbatim>\<open>undefined\<close>), numeric enums of the
  TypeScript compiler are integers, strings are character lists, and every \<^verbatim>\<open>throw\<close> is the
  \<open>Inl\<close> branch of a sum.
\<close>

subsection \<open>Thrown values\<close>

text \<open>
  A JavaScript \<^verbatim>\<open>throw\<close> carries any value. \<open>Error m\<close> is an \<^verbatim>\<open>Error\<close> object whose
  \<^verbatim>\<open>message\<close> is \<open>m\<close>; \<open>ThrownString s\<close> is the string \<open>s\<close>, thrown as it is, which
  has no \<^verbatim>\<open>message\<close> property; \<open>NoMessage\<close> stands for every other thrown value that has
  no \<^verbatim>\<open>message\<close> property (\<^verbatim>\<open>null\<close>, \<^verbatim>\<open>undefined\<close>).
\<close>

datatype Thrown = Error string | ThrownString string | NoMessage

text \<open>\<^verbatim>\<open>(e as Error)?.message\<close>: the message, or \<^verbatim>\<open>undefined\<close>.\<close>

fun message :: "Thrown \<Rightarrow> string option" where
  "message (Error m) = Some m"
| "message (ThrownString s) = None"
| "message NoMessage = None"

text \<open>\<^verbatim>\<open>s + v\<close> for a string \<open>s\<close> and a value \<open>v\<close> that is a string or \<^verbatim>\<open>undefined\<close>.\<close>

fun concat_js :: "string \<Rightarrow> string option \<Rightarrow> string" where
  "concat_js s (Some v) = s @ v"
| "concat_js s None = s @ ''undefined''"

subsection \<open>The host's compiler options\<close>

text \<open>The fields of \<^verbatim>\<open>ts.CompilerOptions\<close> that \<^verbatim>\<open>createSwcOptions\<close> destructures.\<close>

record CompilerOptions =
  esModuleInterop :: "bool option"
  sourceMap :: "bool option"
  importHelpers :: "bool option"
  experimentalDecorators :: "bool option"
  emitDecoratorMetadata :: "bool option"
  target :: "int option"
  module :: "int option"
  jsx :: "int option"
  jsxFactory :: "string option"
  jsxFragmentFactory :: "string option"
  strict :: "bool option"
  alwaysStrict :: "bool option"
  noImplicitUseStrict :: "bool option"

text \<open>
  Modelled from the spec: the type \<^verbatim>\<open>NodeModuleEmitKind\<close> is imported from the package index,
  which is not among the sources; the spec's emit-kind selector has the two values
  commonjs emulation and ECMAScript-module emulation, which the source compares with the
  literals \<^verbatim>\<open>'nodecjs'\<close> and \<^verbatim>\<open>'nodeesm'\<close>. Unset is \<open>None\<close>.
\<close>

datatype NodeModuleEmitKind = nodeesm | nodecjs

subsection \<open>The backend's options\<close>

text \<open>
  The object literals of the source, field by field. A field of the backend whose name is
  also a name of the host's options or of a local constant of \<^verbatim>\<open>createSwcOptions\<close> carries a
  prime: \<open>module'\<close>, \<open>syntax'\<close>, \<open>map'\<close>, \<open>target'\<close>, \<open>type'\<close>, \<open>strictMode'\<close>, \<open>keepClassNames'\<close>.
\<close>

record ModuleConfig =
  noInterop :: bool
  type' :: string
  strictMode' :: bool
  ignoreDynamic :: bool

record TsParserConfig =
  syntax' :: string
  tsx :: bool
  decorators :: "bool option"
  dynamicImport :: bool
  importAssertions :: bool

record ReactConfig =
  throwIfNamespace :: bool
  development :: "bool option"
  useBuiltins :: bool
  pragma :: "string option"
  pragmaFrag :: "string option"
  runtime :: "string option"

record TransformConfig =
  decoratorMetadata :: "bool option"
  legacyDecorator :: bool
  react :: ReactConfig

record ExperimentalConfig =
  keepImportAssertions :: bool

record JscConfig =
  externalHelpers :: "bool option"
  parser :: "TsParserConfig option"
  target' :: "string option"
  transform :: "TransformConfig option"
  keepClassNames' :: "bool option"
  experimental :: "ExperimentalConfig option"

record Options =
  sourceMaps :: "bool option"
  module' :: "ModuleConfig option"
  swcrc :: "bool option"
  jsc :: "JscConfig option"
  filename :: "string option"

text \<open>The result of the backend's \<^verbatim>\<open>transformSync\<close>: \<^verbatim>\<open>{ code, map }\<close>.\<close>

record Output =
  code :: string
  map' :: "string option"

text \<open>
  The backend instance (\<^verbatim>\<open>typeof swcWasm\<close>): the one operation the source calls,
  \<^verbatim>\<open>transformSync(src, options)\<close>, which returns an output or throws.
\<close>

record SwcInstance =
  transformSync :: "string \<Rightarrow> Options \<Rightarrow> Thrown + Output"

subsection \<open>The tables\<close>

text \<open>\<^verbatim>\<open>targetMapping\<close>, a \<^verbatim>\<open>Map\<close> from \<^verbatim>\<open>ts.ScriptTarget\<close> to the backend's target names.\<close>

definition targetMapping :: "int \<rightharpoonup> string" where
  "targetMapping =
     [0 \<mapsto> ''es3'', 1 \<mapsto> ''es5'', 2 \<mapsto> ''es2015'', 3 \<mapsto> ''es2016'', 4 \<mapsto> ''es2017'',
      5 \<mapsto> ''es2018'', 6 \<mapsto> ''es2019'', 7 \<mapsto> ''es2020'', 8 \<mapsto> ''es2021'', 9 \<mapsto> ''es2022'',
      99 \<mapsto> ''esnext'']"

definition swcTargets :: "string list" where
  "swcTargets =
     [''es3'', ''es5'', ''es2015'', ''es2016'', ''es2017'', ''es2018'', ''es2019'', ''es2020'',
      ''es2021'', ''es2022'', ''esnext'']"

definition ModuleKind_None :: int where "ModuleKind_None = 0"
definition ModuleKind_CommonJS :: int where "ModuleKind_CommonJS = 1"
definition ModuleKind_AMD :: int where "ModuleKind_AMD = 2"
definition ModuleKind_UMD :: int where "ModuleKind_UMD = 3"
definition ModuleKind_System :: int where "ModuleKind_System = 4"
definition ModuleKind_ES2015 :: int where "ModuleKind_ES2015 = 5"
definition ModuleKind_ES2020 :: int where "ModuleKind_ES2020 = 6"
definition ModuleKind_ESNext :: int where "ModuleKind_ESNext = 99"
definition ModuleKind_Node16 :: int where "ModuleKind_Node16 = 100"
definition ModuleKind_NodeNext :: int where "ModuleKind_NodeNext = 199"

definition JsxEmit_ReactJSX :: int where "JsxEmit_ReactJSX = 4"
definition JsxEmit_ReactJSXDev :: int where "JsxEmit_ReactJSXDev = 5"

subsection \<open>Array and string primitives of JavaScript\<close>

text \<open>\<^verbatim>\<open>xs.indexOf(x)\<close>: the first index of \<open>x\<close>, or \<open>-1\<close>.\<close>

fun indexOf :: "'a list \<Rightarrow> 'a \<Rightarrow> int" where
  "indexOf [] x = -1"
| "indexOf (y # ys) x =
     (if y = x then 0 else (let i = indexOf ys x in if i < 0 then -1 else i + 1))"

text \<open>\<^verbatim>\<open>xs[i]\<close>: the element, or \<^verbatim>\<open>undefined\<close> out of range.\<close>

definition at :: "'a list \<Rightarrow> int \<Rightarrow> 'a option" where
  "at xs i = (if 0 \<le> i \<and> i < int (length xs) then Some (xs ! nat i) else None)"

text \<open>\<^verbatim>\<open>s.endsWith(t)\<close>: the last \<open>length t\<close> characters of \<open>s\<close> are \<open>t\<close>.\<close>

definition endsWith :: "string \<Rightarrow> string \<Rightarrow> bool" where
  "endsWith s t = (length t \<le> length s \<and> drop (length s - length t) s = t)"

subsection \<open>\<^verbatim>\<open>createSwcOptions\<close>\<close>

text \<open>The options of one probe: \<^verbatim>\<open>{ jsc: { target: swcTargets[swcTargetIndex] } }\<close>.\<close>

definition probeOptions :: "string option \<Rightarrow> Options" where
  "probeOptions t =
     \<lparr>sourceMaps = None, module' = None, swcrc = None,
      jsc = Some \<lparr>externalHelpers = None, parser = None, target' = t, transform = None,
                  keepClassNames' = None, experimental = None\<rparr>,
      filename = None\<rparr>"

text \<open>
  The probing loop
  \<^verbatim>\<open>for (; swcTargetIndex >= 0; swcTargetIndex--) { try { transformSync(..); break; } catch (e) {} }\<close>
  as a function of the index it starts at; its value is the index it ends at.
\<close>

function probe :: "SwcInstance \<Rightarrow> int \<Rightarrow> int" where
  "probe swcInstance swcTargetIndex =
     (if swcTargetIndex \<ge> 0 then
        (case transformSync swcInstance '''' (probeOptions (at swcTargets swcTargetIndex)) of
           Inr _ \<Rightarrow> swcTargetIndex
         | Inl e \<Rightarrow> probe swcInstance (swcTargetIndex - 1))
      else swcTargetIndex)"
  by pat_completeness auto
termination
  by (relation "measure (\<lambda>(s, i). nat (i + 1))") auto

declare probe.simps [simp del]

text \<open>\<^verbatim>\<open>targetMapping.get(target!) ?? 'es3'\<close>\<close>

definition mappedTarget :: "int option \<Rightarrow> string" where
  "mappedTarget tgt =
     (case (case tgt of None \<Rightarrow> None | Some t \<Rightarrow> targetMapping t) of
        Some s \<Rightarrow> s
      | None \<Rightarrow> ''es3'')"

text \<open>Lines 160 to 173: the target after probing, \<^verbatim>\<open>swcTargets[swcTargetIndex]\<close>.\<close>

definition swcTarget :: "SwcInstance \<Rightarrow> int option \<Rightarrow> string option" where
  "swcTarget swcInstance tgt =
     at swcTargets (probe swcInstance (indexOf swcTargets (mappedTarget tgt)))"

text \<open>\<^verbatim>\<open>target! >= 3\<close>; a comparison with \<^verbatim>\<open>undefined\<close> is false.\<close>

definition keepClassNames :: "int option \<Rightarrow> bool" where
  "keepClassNames tgt = (case tgt of None \<Rightarrow> False | Some t \<Rightarrow> t \<ge> 3)"

definition isNodeModuleKind :: "int option \<Rightarrow> bool" where
  "isNodeModuleKind m = (m = Some ModuleKind_Node16 \<or> m = Some ModuleKind_NodeNext)"

definition moduleType :: "int option \<Rightarrow> NodeModuleEmitKind option \<Rightarrow> string" where
  "moduleType m nodeModuleEmitKind =
     (if m = Some ModuleKind_CommonJS then ''commonjs''
      else if m = Some ModuleKind_AMD then ''amd''
      else if m = Some ModuleKind_UMD then ''umd''
      else if isNodeModuleKind m \<and> nodeModuleEmitKind = Some nodecjs then ''commonjs''
      else if isNodeModuleKind m \<and> nodeModuleEmitKind = Some nodeesm then ''es6''
      else ''es6'')"

definition strictMode :: "bool option \<Rightarrow> bool option \<Rightarrow> bool option \<Rightarrow> bool" where
  "strictMode alwaysStrict_v strict_v noImplicitUseStrict_v =
     (if (alwaysStrict_v = Some False \<or> (alwaysStrict_v \<noteq> Some True \<and> strict_v \<noteq> Some True))
         \<and> noImplicitUseStrict_v = Some True
      then False else True)"

definition jsxRuntime :: "int option \<Rightarrow> string option" where
  "jsxRuntime j =
     (if j = Some JsxEmit_ReactJSX \<or> j = Some JsxEmit_ReactJSXDev then Some ''automatic''
      else None)"

definition jsxDevelopment :: "int option \<Rightarrow> bool option" where
  "jsxDevelopment j = (if j = Some JsxEmit_ReactJSXDev then Some True else None)"

text \<open>
  The object literal \<^verbatim>\<open>swcOptions\<close> of \<^verbatim>\<open>createVariant\<close>. The closure's free variables are
  the arguments: the host options, the emit-kind selector and the probed target
  \<open>swcTarget_v\<close>. \<^verbatim>\<open>!esModuleInterop\<close> is true for \<^verbatim>\<open>undefined\<close>; \<^verbatim>\<open>moduleType ? .. : undefined\<close>
  tests the string for being non-empty.
\<close>

definition swcOptions ::
  "CompilerOptions \<Rightarrow> NodeModuleEmitKind option \<Rightarrow> string option \<Rightarrow> bool \<Rightarrow> Options" where
  "swcOptions compilerOptions nodeModuleEmitKind swcTarget_v isTsx =
     \<lparr>sourceMaps = sourceMap compilerOptions,
      module' =
        (if moduleType (module compilerOptions) nodeModuleEmitKind \<noteq> ''''
         then Some \<lparr>noInterop = (esModuleInterop compilerOptions \<noteq> Some True),
                    type' = moduleType (module compilerOptions) nodeModuleEmitKind,
                    strictMode' = strictMode (alwaysStrict compilerOptions)
                        (strict compilerOptions) (noImplicitUseStrict compilerOptions),
                    ignoreDynamic = (nodeModuleEmitKind = Some nodecjs)\<rparr>
         else None),
      swcrc = Some False,
      jsc = Some
        \<lparr>externalHelpers = importHelpers compilerOptions,
         parser = Some \<lparr>syntax' = ''typescript'', tsx = isTsx,
                        decorators = experimentalDecorators compilerOptions,
                        dynamicImport = True, importAssertions = True\<rparr>,
         target' = swcTarget_v,
         transform = Some
           \<lparr>decoratorMetadata = emitDecoratorMetadata compilerOptions,
            legacyDecorator = True,
            react = \<lparr>throwIfNamespace = False,
                     development = jsxDevelopment (jsx compilerOptions),
                     useBuiltins = False,
                     pragma = jsxFactory compilerOptions,
                     pragmaFrag = jsxFragmentFactory compilerOptions,
                     runtime = jsxRuntime (jsx compilerOptions)\<rparr>\<rparr>,
         keepClassNames' = Some (keepClassNames (target compilerOptions)),
         experimental = Some \<lparr>keepImportAssertions = True\<rparr>\<rparr>,
      filename = None\<rparr>"

text \<open>The message of the error that \<^verbatim>\<open>createVariant\<close> throws when the backend rejects.\<close>

definition validationMessage :: "string \<Rightarrow> Thrown \<Rightarrow> string" where
  "validationMessage swcDepName e =
     concat_js
       (swcDepName @ '' threw an error when attempting to validate swc compiler options.\<newline>''
        @ ''You may be using an old version of swc which does not support the options used by ts-node.\<newline>''
        @ ''Try upgrading to the latest version of swc.\<newline>''
        @ ''Error message from swc:\<newline>'')
       (message e)"

definition createVariant ::
  "CompilerOptions \<Rightarrow> NodeModuleEmitKind option \<Rightarrow> SwcInstance \<Rightarrow> string \<Rightarrow> string option
     \<Rightarrow> bool \<Rightarrow> Thrown + Options" where
  "createVariant compilerOptions nodeModuleEmitKind swcInstance swcDepName swcTarget_v isTsx =
     (let opts = swcOptions compilerOptions nodeModuleEmitKind swcTarget_v isTsx in
      case transformSync swcInstance '''' opts of
        Inl e \<Rightarrow> Inl (Error (validationMessage swcDepName e))
      | Inr _ \<Rightarrow> Inr opts)"

text \<open>The result \<^verbatim>\<open>{ nonTsxOptions, tsxOptions }\<close> is the pair, in that order.\<close>

definition createSwcOptions ::
  "CompilerOptions \<Rightarrow> NodeModuleEmitKind option \<Rightarrow> SwcInstance \<Rightarrow> string
     \<Rightarrow> Thrown + (Options \<times> Options)" where
  "createSwcOptions compilerOptions nodeModuleEmitKind swcInstance swcDepName =
     (let swcTarget_v = swcTarget swcInstance (target compilerOptions) in
      case createVariant compilerOptions nodeModuleEmitKind swcInstance swcDepName
             swcTarget_v False of
        Inl e \<Rightarrow> Inl e
      | Inr nonTsxOptions \<Rightarrow>
          (case createVariant compilerOptions nodeModuleEmitKind swcInstance swcDepName
                  swcTarget_v True of
             Inl e \<Rightarrow> Inl e
           | Inr tsxOptions \<Rightarrow> Inr (nonTsxOptions, tsxOptions)))"

subsection \<open>\<^verbatim>\<open>create\<close>\<close>

text \<open>The option \<^verbatim>\<open>swc?: string | typeof swcWasm\<close>: a name, an instance, or absent.\<close>

datatype SwcOption = SwcName string | SwcGiven SwcInstance | SwcAbsent

text \<open>
  \<^verbatim>\<open>createOptions\<close>: the fields that \<^verbatim>\<open>create\<close> reads; \<open>config_options\<close> is
  \<^verbatim>\<open>service.config.options\<close>. The resolve helper returns a path or throws.
\<close>

record CreateOptions =
  swc :: SwcOption
  config_options :: CompilerOptions
  transpilerConfigLocalResolveHelper :: "string \<Rightarrow> bool \<Rightarrow> Thrown + string"
  nodeModuleEmitKind_opt :: "NodeModuleEmitKind option"

definition unresolvableMessage :: string where
  "unresolvableMessage =
     ''swc compiler requires either @swc/core or @swc/wasm to be installed as a dependency.  See https://typestrong.org/ts-node/docs/transpilers''"

text \<open>
  The block "Load swc compiler": the instance and \<^verbatim>\<open>swcDepName\<close>. Node's \<^verbatim>\<open>require\<close> is the
  first argument: it loads the module at a path, or throws.
\<close>

definition loadSwc ::
  "(string \<Rightarrow> Thrown + SwcInstance) \<Rightarrow> (string \<Rightarrow> bool \<Rightarrow> Thrown + string) \<Rightarrow> SwcOption
     \<Rightarrow> Thrown + (SwcInstance \<times> string)" where
  "loadSwc require resolve swc_v =
     (case swc_v of
        SwcName name \<Rightarrow>
          (case resolve name True of
             Inl e \<Rightarrow> Inl e
           | Inr path \<Rightarrow>
               (case require path of Inl e \<Rightarrow> Inl e | Inr inst \<Rightarrow> Inr (inst, name)))
      | SwcAbsent \<Rightarrow>
          (case resolve ''@swc/core'' True of
             Inr swcResolved \<Rightarrow>
               (case require swcResolved of
                  Inl e \<Rightarrow> Inl e
                | Inr inst \<Rightarrow> Inr (inst, ''@swc/core''))
           | Inl e \<Rightarrow>
               (case resolve ''@swc/wasm'' True of
                  Inr swcResolved \<Rightarrow>
                    (case require swcResolved of
                       Inl e \<Rightarrow> Inl e
                     | Inr inst \<Rightarrow> Inr (inst, ''@swc/wasm''))
                | Inl e \<Rightarrow> Inl (Error unresolvableMessage)))
      | SwcGiven inst \<Rightarrow> Inr (inst, ''swc''))"

record TranspileOptions =
  fileName :: string

record TranspileOutput =
  outputText :: string
  sourceMapText :: "string option"

text \<open>
  The closure \<^verbatim>\<open>transpile\<close>; its captured variables \<^verbatim>\<open>swcInstance\<close>, \<^verbatim>\<open>nonTsxOptions\<close> and
  \<^verbatim>\<open>tsxOptions\<close> are the first three arguments.
\<close>

definition transpile ::
  "SwcInstance \<Rightarrow> Options \<Rightarrow> Options \<Rightarrow> string \<Rightarrow> TranspileOptions
     \<Rightarrow> Thrown + TranspileOutput" where
  "transpile swcInstance nonTsxOptions tsxOptions input transpileOptions =
     (let swcOptions_v =
            (if endsWith (fileName transpileOptions) ''.tsx''
                \<or> endsWith (fileName transpileOptions) ''.jsx''
             then tsxOptions else nonTsxOptions)
      in case transformSync swcInstance input
                (swcOptions_v\<lparr>filename := Some (fileName transpileOptions)\<rparr>) of
           Inl e \<Rightarrow> Inl e
         | Inr r \<Rightarrow> Inr \<lparr>outputText = code r, sourceMapText = map' r\<rparr>)"

text \<open>The transpiler that \<^verbatim>\<open>create\<close> returns: \<^verbatim>\<open>{ transpile }\<close>.\<close>

record Transpiler =
  transpile_fn :: "string \<Rightarrow> TranspileOptions \<Rightarrow> Thrown + TranspileOutput"

definition create ::
  "(string \<Rightarrow> Thrown + SwcInstance) \<Rightarrow> CreateOptions \<Rightarrow> Thrown + Transpiler" where
  "create require createOptions =
     (case loadSwc require (transpilerConfigLocalResolveHelper createOptions)
             (swc createOptions) of
        Inl e \<Rightarrow> Inl e
      | Inr (swcInstance, swcDepName) \<Rightarrow>
          (case createSwcOptions (config_options createOptions)
                  (nodeModuleEmitKind_opt createOptions) swcInstance swcDepName of
             Inl e \<Rightarrow> Inl e
           | Inr (nonTsxOptions, tsxOptions) \<Rightarrow>
               Inr \<lparr>transpile_fn = transpile swcInstance nonTsxOptions tsxOptions\<rparr>))"


subsection \<open>Notions the properties are stated with\<close>

text \<open>
  The trial compile of the prober succeeds: \<^verbatim>\<open>transformSync('', { jsc: { target } })\<close> returns.
\<close>

definition trialCompiles :: "SwcInstance \<Rightarrow> string option \<Rightarrow> bool" where
  "trialCompiles swcInstance t =
     (case transformSync swcInstance '''' (probeOptions t) of Inr _ \<Rightarrow> True | Inl _ \<Rightarrow> False)"

text \<open>An options object with the parser's \<^verbatim>\<open>tsx\<close> flag set to \<open>b\<close> and nothing else changed.\<close>

definition withTsx :: "bool \<Rightarrow> Options \<Rightarrow> Options" where
  "withTsx b opts =
     opts\<lparr>jsc := map_option
       (\<lambda>j. j\<lparr>parser := map_option (\<lambda>p. p\<lparr>tsx := b\<rparr>) (parser j)\<rparr>) (jsc opts)\<rparr>"

subsection \<open>Concrete hosts and backends\<close>

text \<open>Host options with every field unset, and the same with one field given.\<close>

definition unsetOptions :: CompilerOptions where
  "unsetOptions =
     \<lparr>esModuleInterop = None, sourceMap = None, importHelpers = None,
      experimentalDecorators = None, emitDecoratorMetadata = None, target = None,
      module = None, jsx = None, jsxFactory = None, jsxFragmentFactory = None,
      strict = None, alwaysStrict = None, noImplicitUseStrict = None\<rparr>"

definition commonjsOptions :: CompilerOptions where
  "commonjsOptions = unsetOptions\<lparr>module := Some ModuleKind_CommonJS\<rparr>"

definition es2022Options :: CompilerOptions where
  "es2022Options = unsetOptions\<lparr>target := Some 9\<rparr>"

text \<open>
  A backend that records what it was given: its output names the variant of the options
  (by the parser's \<^verbatim>\<open>tsx\<close> flag) and the file name it received.
\<close>

definition recordingSwc :: SwcInstance where
  "recordingSwc =
     \<lparr>transformSync = (\<lambda>src opts.
        Inr \<lparr>code =
               (case Option.bind (jsc opts) parser of
                  None \<Rightarrow> ''probe:''
                | Some p \<Rightarrow> if tsx p then ''markup:'' else ''plain:'')
               @ (case filename opts of None \<Rightarrow> ''?'' | Some f \<Rightarrow> f),
             map' = Some src\<rparr>)\<rparr>"

text \<open>An older backend: it knows no target after \<^verbatim>\<open>es2019\<close>.\<close>

definition es2019Swc :: SwcInstance where
  "es2019Swc =
     \<lparr>transformSync = (\<lambda>src opts.
        if Option.bind (jsc opts) target'
             \<in> {Some ''es2020'', Some ''es2021'', Some ''es2022'', Some ''esnext''}
        then Inl (Error ''unknown variant'')
        else Inr \<lparr>code = src, map' = None\<rparr>)\<rparr>"

text \<open>A backend that rejects every named target and accepts options without one.\<close>

definition noTargetSwc :: SwcInstance where
  "noTargetSwc =
     \<lparr>transformSync = (\<lambda>src opts.
        if Option.bind (jsc opts) target' \<noteq> None
        then Inl (Error ''unknown variant'')
        else Inr \<lparr>code = src, map' = None\<rparr>)\<rparr>"



text \<open>Resolve helpers: one finds no package, one finds only \<^verbatim>\<open>@swc/wasm\<close>.\<close>

definition resolveNothing :: "string \<Rightarrow> bool \<Rightarrow> Thrown + string" where
  "resolveNothing name required = Inl (Error ''Cannot find module'')"

definition resolveWasmOnly :: "string \<Rightarrow> bool \<Rightarrow> Thrown + string" where
  "resolveWasmOnly name required =
     (if name = ''@swc/wasm'' then Inr ''/node_modules/@swc/wasm/wasm.js''
      else Inl (Error ''Cannot find module''))"

definition requireRecording :: "string \<Rightarrow> Thrown + SwcInstance" where
  "requireRecording path = Inr recordingSwc"

definition createWith ::
  "SwcOption \<Rightarrow> (string \<Rightarrow> bool \<Rightarrow> Thrown + string) \<Rightarrow> CreateOptions" where
  "createWith swc_v resolve =
     \<lparr>swc = swc_v, config_options = unsetOptions,
      transpilerConfigLocalResolveHelper = resolve, nodeModuleEmitKind_opt = None\<rparr>"

section \<open>Properties\<close>

subsection \<open>Lemmas on the primitives and the probing loop\<close>

lemma indexOf_mem:
  "x \<in> set xs \<Longrightarrow>
     0 \<le> indexOf xs x \<and> indexOf xs x < int (length xs) \<and> xs ! nat (indexOf xs x) = x"
proof (induction xs)
  case Nil
  then show ?case by simp
next
  case (Cons y ys)
  show ?case
  proof (cases "y = x")
    case True
    then show ?thesis by simp
  next
    case False
    with Cons.prems have "x \<in> set ys" by simp
    from Cons.IH[OF this] False show ?thesis
      by (simp add: Let_def nat_add_distrib)
  qed
qed

lemma mappedTarget_mem: "mappedTarget tgt \<in> set swcTargets"
  by (cases tgt) (simp_all add: mappedTarget_def targetMapping_def swcTargets_def)

lemma mapped_index_range:
  "0 \<le> indexOf swcTargets (mappedTarget tgt) \<and> indexOf swcTargets (mappedTarget tgt) < 11"
  using indexOf_mem[OF mappedTarget_mem, of tgt] by (simp add: swcTargets_def)

lemma mapped_index_at:
  "at swcTargets (indexOf swcTargets (mappedTarget tgt)) = Some (mappedTarget tgt)"
  using indexOf_mem[OF mappedTarget_mem, of tgt] by (simp add: at_def)

lemma endsWith_suffix: "endsWith s t = suffix t s"
proof
  assume "endsWith s t"
  then have "s = take (length s - length t) s @ t"
    by (metis append_take_drop_id endsWith_def)
  then show "suffix t s" by (rule suffixI)
next
  assume "suffix t s"
  then obtain zs where "s = zs @ t" by (auto simp: suffix_def)
  then show "endsWith s t" by (simp add: endsWith_def)
qed

text \<open>The loop ends at or below the index it starts at, and never below \<open>-1\<close>.\<close>

lemma probe_le: "probe s i \<le> i"
proof (induction s i rule: probe.induct)
  case (1 s i)
  show ?case
  proof (cases "i \<ge> 0")
    case True
    show ?thesis
    proof (cases "transformSync s '''' (probeOptions (at swcTargets i))")
      case (Inl e)
      with True 1 have "probe s (i - 1) \<le> i - 1" by simp
      with True Inl show ?thesis by (subst probe.simps) simp
    next
      case (Inr r)
      with True show ?thesis by (subst probe.simps) simp
    qed
  next
    case False
    then show ?thesis by (subst probe.simps) simp
  qed
qed

lemma probe_ge: "-1 \<le> i \<Longrightarrow> -1 \<le> probe s i"
proof (induction s i rule: probe.induct)
  case (1 s i)
  show ?case
  proof (cases "i \<ge> 0")
    case True
    show ?thesis
    proof (cases "transformSync s '''' (probeOptions (at swcTargets i))")
      case (Inl e)
      with True 1 have "-1 \<le> probe s (i - 1)" by simp
      with True Inl show ?thesis by (subst probe.simps) simp
    next
      case (Inr r)
      with True show ?thesis by (subst probe.simps) simp
    qed
  next
    case False
    with 1(2) show ?thesis by (subst probe.simps) simp
  qed
qed

text \<open>Where the loop ends inside the table, the trial compile of that entry succeeded.\<close>

lemma probe_accepts: "0 \<le> probe s i \<Longrightarrow> trialCompiles s (at swcTargets (probe s i))"
proof (induction s i rule: probe.induct)
  case (1 s i)
  show ?case
  proof (cases "i \<ge> 0")
    case True
    show ?thesis
    proof (cases "transformSync s '''' (probeOptions (at swcTargets i))")
      case (Inl e)
      with True have eq: "probe s i = probe s (i - 1)" by (subst probe.simps) simp
      with 1 True Inl show ?thesis by simp
    next
      case (Inr r)
      with True have "probe s i = i" by (subst probe.simps) simp
      with Inr show ?thesis by (simp add: trialCompiles_def)
    qed
  next
    case False
    then have "probe s i = i" by (subst probe.simps) simp
    with False 1(2) show ?thesis by simp
  qed
qed

text \<open>Every entry the loop stepped over was rejected.\<close>

lemma probe_skipped_rejected:
  "probe s i < j \<Longrightarrow> j \<le> i \<Longrightarrow> \<not> trialCompiles s (at swcTargets j)"
proof (induction s i rule: probe.induct)
  case (1 s i)
  show ?case
  proof (cases "i \<ge> 0")
    case True
    show ?thesis
    proof (cases "transformSync s '''' (probeOptions (at swcTargets i))")
      case (Inl e)
      with True have eq: "probe s i = probe s (i - 1)" by (subst probe.simps) simp
      show ?thesis
      proof (cases "j = i")
        case True
        with Inl show ?thesis by (simp add: trialCompiles_def)
      next
        case False
        with 1(3) have "j \<le> i - 1" by simp
        with 1(1)[OF True Inl] 1(2) eq show ?thesis by simp
      qed
    next
      case (Inr r)
      with True have "probe s i = i" by (subst probe.simps) simp
      with 1(2,3) show ?thesis by simp
    qed
  next
    case False
    then have "probe s i = i" by (subst probe.simps) simp
    with 1(2,3) show ?thesis by simp
  qed
qed

subsection \<open>Lemmas on the translator\<close>

lemma moduleType_values:
  "moduleType m k = ''commonjs'' \<or> moduleType m k = ''amd'' \<or> moduleType m k = ''umd''
     \<or> moduleType m k = ''es6''"
  by (simp add: moduleType_def)

lemma moduleType_nonempty: "moduleType m k \<noteq> ''''"
  using moduleType_values[of m k] by auto

lemma createVariant_Inr:
  "createVariant co k s dep tg b = Inr opts \<Longrightarrow> opts = swcOptions co k tg b"
  by (auto simp: createVariant_def Let_def split: sum.splits)

lemma createSwcOptions_Inr:
  "createSwcOptions co k s dep = Inr (n, t) \<Longrightarrow>
     n = swcOptions co k (swcTarget s (target co)) False
     \<and> t = swcOptions co k (swcTarget s (target co)) True"
  by (auto simp: createSwcOptions_def Let_def split: sum.splits dest: createVariant_Inr)

text \<open>\<^verbatim>\<open>createSwcOptions\<close> by the outcome of the two validating compiles.\<close>

lemma createSwcOptions_cases:
  "createSwcOptions co k s dep =
     (case transformSync s '''' (swcOptions co k (swcTarget s (target co)) False) of
        Inl e \<Rightarrow> Inl (Error (validationMessage dep e))
      | Inr _ \<Rightarrow>
          (case transformSync s '''' (swcOptions co k (swcTarget s (target co)) True) of
             Inl e \<Rightarrow> Inl (Error (validationMessage dep e))
           | Inr _ \<Rightarrow> Inr (swcOptions co k (swcTarget s (target co)) False,
                           swcOptions co k (swcTarget s (target co)) True)))"
  by (simp add: createSwcOptions_def createVariant_def Let_def split: sum.splits)

subsection \<open>Strict mode\<close>

text \<open>
  Claim C1. For every combination of the tri-state host flags \<^verbatim>\<open>alwaysStrict\<close>, \<^verbatim>\<open>strict\<close> and
  \<^verbatim>\<open>noImplicitUseStrict\<close>, the derived strict-mode flag is false exactly when
  (\<^verbatim>\<open>alwaysStrict\<close> is explicitly false, or \<^verbatim>\<open>alwaysStrict\<close> is unset and \<^verbatim>\<open>strict\<close> is not true)
  and \<^verbatim>\<open>noImplicitUseStrict\<close> is explicitly true; it is true for all other combinations. The
  flag is the \<^verbatim>\<open>strictMode\<close> field of the module section of each produced object.
\<close>

theorem strictMode_tristate:
  "strictMode a s n = (\<not> ((a = Some False \<or> (a = None \<and> s \<noteq> Some True)) \<and> n = Some True))
   \<and> (\<exists>mc. module' (swcOptions co k tg b) = Some mc
         \<and> strictMode' mc =
             (\<not> ((alwaysStrict co = Some False
                    \<or> (alwaysStrict co = None \<and> strict co \<noteq> Some True))
                  \<and> noImplicitUseStrict co = Some True)))"
proof -
  have flag: "strictMode a' s' n' =
      (\<not> ((a' = Some False \<or> (a' = None \<and> s' \<noteq> Some True)) \<and> n' = Some True))"
    for a' s' n'
    by (cases a') (auto simp: strictMode_def)
  show ?thesis
    by (simp add: flag swcOptions_def moduleType_nonempty)
qed

text \<open>The boundary rows of the table, read off the theorem.\<close>

theorem strictMode_tristate_witness:
  "strictMode (Some False) (Some True) (Some True) = False
   \<and> strictMode None None (Some True) = False
   \<and> strictMode None (Some False) (Some True) = False
   \<and> strictMode None (Some True) (Some True) = True
   \<and> strictMode (Some True) (Some False) (Some True) = True
   \<and> strictMode (Some False) (Some False) (Some False) = True
   \<and> strictMode (Some False) None None = True
   \<and> strictMode None None None = True"
  using strictMode_tristate[where a = "Some False" and s = "Some True" and n = "Some True"]
    strictMode_tristate[where a = None and s = None and n = "Some True"]
    strictMode_tristate[where a = None and s = "Some False" and n = "Some True"]
    strictMode_tristate[where a = None and s = "Some True" and n = "Some True"]
    strictMode_tristate[where a = "Some True" and s = "Some False" and n = "Some True"]
    strictMode_tristate[where a = "Some False" and s = "Some False" and n = "Some False"]
    strictMode_tristate[where a = "Some False" and s = None and n = None]
    strictMode_tristate[where a = None and s = None and n = None]
  by simp

subsection \<open>Module kind\<close>

text \<open>
  Claim C3. The module-kind mapping: CommonJS maps to \<^verbatim>\<open>'commonjs'\<close>, AMD to \<^verbatim>\<open>'amd'\<close>, UMD to
  \<^verbatim>\<open>'umd'\<close>; Node16 or NodeNext with the emit-kind selector \<^verbatim>\<open>'nodecjs'\<close> maps to \<^verbatim>\<open>'commonjs'\<close>;
  Node16 or NodeNext with the selector \<^verbatim>\<open>'nodeesm'\<close> or unset maps to \<^verbatim>\<open>'es6'\<close>. The mapped
  value is the \<^verbatim>\<open>type\<close> field of the module section of each produced object.
\<close>

theorem moduleType_mapping:
  "moduleType (Some ModuleKind_CommonJS) k = ''commonjs''
   \<and> moduleType (Some ModuleKind_AMD) k = ''amd''
   \<and> moduleType (Some ModuleKind_UMD) k = ''umd''
   \<and> moduleType (Some ModuleKind_Node16) (Some nodecjs) = ''commonjs''
   \<and> moduleType (Some ModuleKind_NodeNext) (Some nodecjs) = ''commonjs''
   \<and> moduleType (Some ModuleKind_Node16) (Some nodeesm) = ''es6''
   \<and> moduleType (Some ModuleKind_NodeNext) (Some nodeesm) = ''es6''
   \<and> moduleType (Some ModuleKind_Node16) None = ''es6''
   \<and> moduleType (Some ModuleKind_NodeNext) None = ''es6''
   \<and> (\<exists>mc. module' (swcOptions co k tg b) = Some mc \<and> type' mc = moduleType (module co) k)"
  by (simp add: moduleType_def isNodeModuleKind_def swcOptions_def
      ModuleKind_CommonJS_def ModuleKind_AMD_def ModuleKind_UMD_def
      ModuleKind_Node16_def ModuleKind_NodeNext_def)

text \<open>
  Claim C10. For every host module kind the mapped module type is one of \<^verbatim>\<open>'commonjs'\<close>,
  \<^verbatim>\<open>'amd'\<close>, \<^verbatim>\<open>'umd'\<close> and \<^verbatim>\<open>'es6'\<close>, hence a non-empty string; None, System, ES2015, ES2020,
  ESNext, and Node16 or NodeNext with the selector unset, map to \<^verbatim>\<open>'es6'\<close>. So the module
  section of a produced object is always present, in both objects that \<^verbatim>\<open>createSwcOptions\<close>
  returns.
\<close>

theorem module_section_always_present:
  "moduleType m k \<noteq> ''''
   \<and> (moduleType m k = ''commonjs'' \<or> moduleType m k = ''amd'' \<or> moduleType m k = ''umd''
        \<or> moduleType m k = ''es6'')
   \<and> moduleType None k = ''es6''
   \<and> moduleType (Some ModuleKind_None) k = ''es6''
   \<and> moduleType (Some ModuleKind_System) k = ''es6''
   \<and> moduleType (Some ModuleKind_ES2015) k = ''es6''
   \<and> moduleType (Some ModuleKind_ES2020) k = ''es6''
   \<and> moduleType (Some ModuleKind_ESNext) k = ''es6''
   \<and> moduleType (Some ModuleKind_Node16) None = ''es6''
   \<and> moduleType (Some ModuleKind_NodeNext) None = ''es6''
   \<and> module' (swcOptions co k tg b) \<noteq> None
   \<and> (\<forall>n t. createSwcOptions co k s dep = Inr (n, t) \<longrightarrow> module' n \<noteq> None \<and> module' t \<noteq> None)"
proof -
  have table: "moduleType None k = ''es6''
      \<and> moduleType (Some ModuleKind_None) k = ''es6''
      \<and> moduleType (Some ModuleKind_System) k = ''es6''
      \<and> moduleType (Some ModuleKind_ES2015) k = ''es6''
      \<and> moduleType (Some ModuleKind_ES2020) k = ''es6''
      \<and> moduleType (Some ModuleKind_ESNext) k = ''es6''
      \<and> moduleType (Some ModuleKind_Node16) None = ''es6''
      \<and> moduleType (Some ModuleKind_NodeNext) None = ''es6''"
    by (simp add: moduleType_def isNodeModuleKind_def
        ModuleKind_None_def ModuleKind_System_def ModuleKind_ES2015_def ModuleKind_ES2020_def
        ModuleKind_ESNext_def ModuleKind_CommonJS_def ModuleKind_AMD_def ModuleKind_UMD_def
        ModuleKind_Node16_def ModuleKind_NodeNext_def)
  have present: "module' (swcOptions co' k' tg' b') \<noteq> None" for co' k' tg' b'
    by (simp add: swcOptions_def moduleType_nonempty)
  have both: "\<forall>n t. createSwcOptions co k s dep = Inr (n, t)
      \<longrightarrow> module' n \<noteq> None \<and> module' t \<noteq> None"
    using createSwcOptions_Inr[of co k s dep] present by blast
  from table present both moduleType_nonempty[of m k] moduleType_values[of m k]
  show ?thesis by blast
qed

theorem module_section_always_present_witness:
  "createSwcOptions unsetOptions None recordingSwc ''swc''
     = Inr (swcOptions unsetOptions None (Some ''es3'') False,
            swcOptions unsetOptions None (Some ''es3'') True)
   \<and> module' (swcOptions unsetOptions None (Some ''es3'') False) \<noteq> None
   \<and> module' (swcOptions unsetOptions None (Some ''es3'') True) \<noteq> None"
proof -
  have tg: "swcTarget recordingSwc (target unsetOptions) = Some ''es3''"
    by (simp add: swcTarget_def unsetOptions_def mappedTarget_def swcTargets_def probe.simps
        recordingSwc_def at_def)
  have acc: "transformSync recordingSwc src opts \<noteq> Inl e" for src opts e
    by (simp add: recordingSwc_def)
  have run: "createSwcOptions unsetOptions None recordingSwc ''swc''
      = Inr (swcOptions unsetOptions None (Some ''es3'') False,
             swcOptions unsetOptions None (Some ''es3'') True)"
    by (simp add: createSwcOptions_cases tg acc split: sum.splits)
  from module_section_always_present[where co = unsetOptions and k = None
      and s = recordingSwc and dep = "''swc''"] run
  show ?thesis by blast
qed

subsection \<open>Dynamic imports\<close>

text \<open>
  Claim C4, which the code does not meet. The claim: \<^verbatim>\<open>ignoreDynamic\<close> is set only when
  commonjs emulation was selected because the selector asked for it on Node16 or NodeNext,
  and not in any other configuration that emits commonjs. The code sets the flag from the
  selector alone: with the host module kind CommonJS, which is not a Node module kind, and
  the selector \<^verbatim>\<open>'nodecjs'\<close>, the module type is \<^verbatim>\<open>'commonjs'\<close> by the first branch and
  \<^verbatim>\<open>ignoreDynamic\<close> is true.
\<close>

theorem ignoreDynamic_with_explicit_commonjs:
  "\<not> isNodeModuleKind (module commonjsOptions)
   \<and> moduleType (module commonjsOptions) (Some nodecjs) = ''commonjs''
   \<and> moduleType (module commonjsOptions) None = ''commonjs''
   \<and> map_option ignoreDynamic (module' (swcOptions commonjsOptions (Some nodecjs) tg b))
       = Some True"
  by (simp add: commonjsOptions_def unsetOptions_def isNodeModuleKind_def moduleType_def
      swcOptions_def ModuleKind_CommonJS_def ModuleKind_Node16_def ModuleKind_NodeNext_def)

subsection \<open>The two variants\<close>

text \<open>
  Claim C6. For every host configuration and probed level, the plain and the markup object
  are equal in every field but the \<^verbatim>\<open>tsx\<close> flag of the parser configuration: each is the
  other with that flag set, the plain one has it false and the markup one has it true. This
  holds of the two object literals and of the pair that \<^verbatim>\<open>createSwcOptions\<close> returns.
\<close>

theorem variants_differ_only_in_tsx:
  "swcOptions co k tg True = withTsx True (swcOptions co k tg False)
   \<and> swcOptions co k tg False = withTsx False (swcOptions co k tg True)
   \<and> (\<forall>n t. createSwcOptions co k s dep = Inr (n, t) \<longrightarrow>
         t = withTsx True n \<and> n = withTsx False t
         \<and> map_option tsx (Option.bind (jsc n) parser) = Some False
         \<and> map_option tsx (Option.bind (jsc t) parser) = Some True)"
proof -
  have lit: "swcOptions co k tg' True = withTsx True (swcOptions co k tg' False)
      \<and> swcOptions co k tg' False = withTsx False (swcOptions co k tg' True)
      \<and> map_option tsx (Option.bind (jsc (swcOptions co k tg' b)) parser) = Some b" for tg' b
    by (simp add: swcOptions_def withTsx_def)
  show ?thesis
    using lit createSwcOptions_Inr[of co k s dep] by metis
qed

theorem variants_differ_only_in_tsx_witness:
  "(\<exists>n t. createSwcOptions es2022Options (Some nodeesm) es2019Swc ''@swc/core'' = Inr (n, t)
      \<and> t = withTsx True n \<and> n = withTsx False t \<and> t \<noteq> n
      \<and> map_option target' (jsc n) = Some (Some ''es2019''))"
proof -
  have tg: "swcTarget es2019Swc (target es2022Options) = Some ''es2019''"
    by (simp add: swcTarget_def es2022Options_def unsetOptions_def mappedTarget_def
        targetMapping_def swcTargets_def probe.simps es2019Swc_def at_def probeOptions_def)
  have acc: "transformSync es2019Swc src
      (swcOptions es2022Options (Some nodeesm) (Some ''es2019'') b) \<noteq> Inl e" for src b e
    by (simp add: es2019Swc_def swcOptions_def)
  have run: "createSwcOptions es2022Options (Some nodeesm) es2019Swc ''@swc/core''
      = Inr (swcOptions es2022Options (Some nodeesm) (Some ''es2019'') False,
             swcOptions es2022Options (Some nodeesm) (Some ''es2019'') True)"
    by (simp add: createSwcOptions_cases tg acc split: sum.splits)
  have diff: "swcOptions es2022Options (Some nodeesm) (Some ''es2019'') True
      \<noteq> swcOptions es2022Options (Some nodeesm) (Some ''es2019'') False"
    by (simp add: swcOptions_def)
  have tgt: "map_option target' (jsc (swcOptions es2022Options (Some nodeesm) (Some ''es2019'') False))
      = Some (Some ''es2019'')"
    by (simp add: swcOptions_def)
  from variants_differ_only_in_tsx[where co = es2022Options and k = "Some nodeesm"
      and s = es2019Swc and dep = "''@swc/core''"]
    run diff tgt
  show ?thesis by blast
qed

subsection \<open>Capability probing\<close>

text \<open>
  Claim C2. For every requested level, and every backend whose trial compile succeeds on
  some table entry at or below the mapped requested level (an unmapped level maps to the
  oldest entry, \<^verbatim>\<open>'es3'\<close> at index 0), the probed level is the greatest table entry at or
  below the mapped level whose trial compile of empty input succeeds: it is an entry of the
  table at an index \<open>k\<close> not above the mapped index, its trial compile succeeds, and every
  entry above \<open>k\<close> up to the mapped index is rejected.
\<close>

theorem probed_level_greatest_supported:
  assumes "0 \<le> j" and "j \<le> indexOf swcTargets (mappedTarget tgt)"
    and "trialCompiles s (at swcTargets j)"
  shows "at swcTargets (indexOf swcTargets (mappedTarget tgt)) = Some (mappedTarget tgt)
    \<and> ((case tgt of None \<Rightarrow> None | Some t \<Rightarrow> targetMapping t) = None
         \<longrightarrow> mappedTarget tgt = ''es3'' \<and> indexOf swcTargets (mappedTarget tgt) = 0)
    \<and> (\<exists>k lvl. 0 \<le> k \<and> k \<le> indexOf swcTargets (mappedTarget tgt)
          \<and> at swcTargets k = Some lvl
          \<and> swcTarget s tgt = Some lvl
          \<and> trialCompiles s (Some lvl)
          \<and> (\<forall>i. k < i \<and> i \<le> indexOf swcTargets (mappedTarget tgt)
                 \<longrightarrow> \<not> trialCompiles s (at swcTargets i)))"
proof -
  let ?i0 = "indexOf swcTargets (mappedTarget tgt)"
  let ?k = "probe s ?i0"
  have unmapped: "(case tgt of None \<Rightarrow> None | Some t \<Rightarrow> targetMapping t) = None
      \<longrightarrow> mappedTarget tgt = ''es3'' \<and> ?i0 = 0"
    by (simp add: mappedTarget_def swcTargets_def)
  have "\<not> ?k < j"
    using probe_skipped_rejected[of s ?i0 j] assms by blast
  with assms(1) have k0: "0 \<le> ?k" by simp
  have kle: "?k \<le> ?i0" by (rule probe_le)
  from kle mapped_index_range[of tgt] have "?k < int (length swcTargets)"
    by (simp add: swcTargets_def)
  with k0 have atk: "at swcTargets ?k = Some (swcTargets ! nat ?k)"
    by (simp add: at_def)
  have tgt_eq: "swcTarget s tgt = Some (swcTargets ! nat ?k)"
    using atk by (simp add: swcTarget_def)
  have acc: "trialCompiles s (Some (swcTargets ! nat ?k))"
    using probe_accepts[OF k0] atk by simp
  have rej: "\<forall>i. ?k < i \<and> i \<le> ?i0 \<longrightarrow> \<not> trialCompiles s (at swcTargets i)"
    using probe_skipped_rejected[of s ?i0] by blast
  from k0 kle atk tgt_eq acc rej
  have "\<exists>k lvl. 0 \<le> k \<and> k \<le> ?i0 \<and> at swcTargets k = Some lvl \<and> swcTarget s tgt = Some lvl
      \<and> trialCompiles s (Some lvl)
      \<and> (\<forall>i. k < i \<and> i \<le> ?i0 \<longrightarrow> \<not> trialCompiles s (at swcTargets i))"
    by blast
  with mapped_index_at[of tgt] unmapped show ?thesis by blast
qed

text \<open>
  The host asks for ES2022 (9, index 9 of the table); the backend knows nothing after
  \<^verbatim>\<open>es2019\<close> (index 6): the probed level is \<^verbatim>\<open>es2019\<close>.
\<close>

theorem probed_level_greatest_supported_witness:
  "(0::int) \<le> 6 \<and> 6 \<le> indexOf swcTargets (mappedTarget (Some 9))
   \<and> trialCompiles es2019Swc (at swcTargets 6)
   \<and> swcTarget es2019Swc (Some 9) = Some ''es2019''
   \<and> (\<exists>k lvl. 0 \<le> k \<and> k \<le> indexOf swcTargets (mappedTarget (Some 9))
         \<and> at swcTargets k = Some lvl
         \<and> swcTarget es2019Swc (Some 9) = Some lvl
         \<and> trialCompiles es2019Swc (Some lvl)
         \<and> (\<forall>i. k < i \<and> i \<le> indexOf swcTargets (mappedTarget (Some 9))
                \<longrightarrow> \<not> trialCompiles es2019Swc (at swcTargets i)))"
proof -
  have h1: "(0::int) \<le> 6" by simp
  have h2: "6 \<le> indexOf swcTargets (mappedTarget (Some 9))"
    by (simp add: mappedTarget_def targetMapping_def swcTargets_def)
  have h3: "trialCompiles es2019Swc (at swcTargets 6)"
    by (simp add: trialCompiles_def es2019Swc_def at_def swcTargets_def probeOptions_def)
  have run: "swcTarget es2019Swc (Some 9) = Some ''es2019''"
    by (simp add: swcTarget_def mappedTarget_def targetMapping_def swcTargets_def probe.simps
        es2019Swc_def at_def probeOptions_def)
  from probed_level_greatest_supported[OF h1 h2 h3] h1 h2 h3 run
  show ?thesis by blast
qed

text \<open>
  Claim C9. If the trial compile rejects every table entry at or below the mapped requested
  level, the oldest included, the loop's index ends at \<open>-1\<close>, below the first entry, and
  the selected level is \<^verbatim>\<open>undefined\<close> (the table read out of range); no error is raised for
  it: \<^verbatim>\<open>createSwcOptions\<close> goes on to build and validate the two objects with an undefined
  target, and returns them when the backend accepts them.
\<close>

theorem probe_exhausted_selects_undefined:
  assumes "\<forall>j. 0 \<le> j \<and> j \<le> indexOf swcTargets (mappedTarget (target co))
             \<longrightarrow> \<not> trialCompiles s (at swcTargets j)"
  shows "probe s (indexOf swcTargets (mappedTarget (target co))) = -1
    \<and> at swcTargets (-1) = None
    \<and> swcTarget s (target co) = None
    \<and> createSwcOptions co k s dep =
        (case createVariant co k s dep None False of
           Inl e \<Rightarrow> Inl e
         | Inr n \<Rightarrow>
             (case createVariant co k s dep None True of
                Inl e \<Rightarrow> Inl e
              | Inr t \<Rightarrow> Inr (n, t)))
    \<and> (\<forall>r r'. transformSync s '''' (swcOptions co k None False) = Inr r
             \<and> transformSync s '''' (swcOptions co k None True) = Inr r'
         \<longrightarrow> createSwcOptions co k s dep
               = Inr (swcOptions co k None False, swcOptions co k None True))"
proof -
  let ?i0 = "indexOf swcTargets (mappedTarget (target co))"
  have i0: "0 \<le> ?i0" using mapped_index_range[of "target co"] by simp
  then have lo: "-1 \<le> probe s ?i0" by (intro probe_ge) simp
  have "\<not> 0 \<le> probe s ?i0"
  proof
    assume k0: "0 \<le> probe s ?i0"
    from probe_accepts[OF k0] assms k0 probe_le[of s ?i0] show False by blast
  qed
  with lo have end_index: "probe s ?i0 = -1" by simp
  have out: "at swcTargets (-1) = None" by (simp add: at_def)
  have undef: "swcTarget s (target co) = None"
    by (simp add: swcTarget_def end_index out)
  have goes_on: "createSwcOptions co k s dep =
        (case createVariant co k s dep None False of
           Inl e \<Rightarrow> Inl e
         | Inr n \<Rightarrow>
             (case createVariant co k s dep None True of
                Inl e \<Rightarrow> Inl e
              | Inr t \<Rightarrow> Inr (n, t)))"
    by (simp add: createSwcOptions_def undef)
  have returns: "\<forall>r r'. transformSync s '''' (swcOptions co k None False) = Inr r
             \<and> transformSync s '''' (swcOptions co k None True) = Inr r'
         \<longrightarrow> createSwcOptions co k s dep
               = Inr (swcOptions co k None False, swcOptions co k None True)"
    by (simp add: createSwcOptions_cases undef)
  from end_index out undef goes_on returns show ?thesis by blast
qed

text \<open>
  A backend that rejects every named target: for the host's ES2022 the probe ends at
  \<open>-1\<close>, and construction succeeds with options whose target is undefined.
\<close>

theorem probe_exhausted_selects_undefined_witness:
  "\<not> (\<exists>j. 0 \<le> j \<and> j \<le> indexOf swcTargets (mappedTarget (target es2022Options))
         \<and> trialCompiles noTargetSwc (at swcTargets j))
   \<and> indexOf swcTargets (mappedTarget (target es2022Options)) = 9
   \<and> probe noTargetSwc (indexOf swcTargets (mappedTarget (target es2022Options))) = -1
   \<and> swcTarget noTargetSwc (target es2022Options) = None
   \<and> createSwcOptions es2022Options None noTargetSwc ''swc''
       = Inr (swcOptions es2022Options None None False, swcOptions es2022Options None None True)
   \<and> map_option target' (jsc (swcOptions es2022Options None None False)) = Some None"
proof -
  have rejects: "\<not> trialCompiles noTargetSwc (at swcTargets j)"
    if "0 \<le> j \<and> j \<le> indexOf swcTargets (mappedTarget (target es2022Options))" for j
  proof -
    from that mapped_index_range[of "target es2022Options"]
    have "at swcTargets j \<noteq> None" by (simp add: at_def swcTargets_def)
    then show ?thesis
      by (auto simp: trialCompiles_def noTargetSwc_def probeOptions_def)
  qed
  then have h: "\<forall>j. 0 \<le> j \<and> j \<le> indexOf swcTargets (mappedTarget (target es2022Options))
         \<longrightarrow> \<not> trialCompiles noTargetSwc (at swcTargets j)"
    by blast
  have acc: "transformSync noTargetSwc '''' (swcOptions es2022Options None None b)
      = Inr \<lparr>code = '''', map' = None\<rparr>" for b
    by (simp add: noTargetSwc_def swcOptions_def)
  have undef: "map_option target' (jsc (swcOptions es2022Options None None False)) = Some None"
    by (simp add: swcOptions_def)
  have i0: "indexOf swcTargets (mappedTarget (target es2022Options)) = 9"
    by (simp add: es2022Options_def unsetOptions_def mappedTarget_def targetMapping_def
        swcTargets_def)
  from probe_exhausted_selects_undefined[OF h, of None "''swc''"] h acc undef i0
  show ?thesis by blast
qed

subsection \<open>Resolving the backend\<close>

text \<open>
  Claim C7. When no backend name or instance is given and the resolve helper fails on
  \<^verbatim>\<open>@swc/core\<close>: if it fails on \<^verbatim>\<open>@swc/wasm\<close> too, construction fails with an error whose
  message contains both dependency names and the pointer to the documentation; if it
  resolves \<^verbatim>\<open>@swc/wasm\<close>, the fallback is used: the module at the resolved path is loaded as
  the backend under the name \<^verbatim>\<open>@swc/wasm\<close>, and construction goes on with it.
\<close>

theorem unresolvable_backend_error:
  assumes "swc c = SwcAbsent"
    and "transpilerConfigLocalResolveHelper c ''@swc/core'' True = Inl e1"
  shows "(\<forall>e2. transpilerConfigLocalResolveHelper c ''@swc/wasm'' True = Inl e2
            \<longrightarrow> create require c = Inl (Error unresolvableMessage))
    \<and> sublist ''@swc/core'' unresolvableMessage
    \<and> sublist ''@swc/wasm'' unresolvableMessage
    \<and> sublist ''See https://typestrong.org/ts-node/docs/transpilers'' unresolvableMessage
    \<and> (\<forall>path. transpilerConfigLocalResolveHelper c ''@swc/wasm'' True = Inr path
          \<longrightarrow> loadSwc require (transpilerConfigLocalResolveHelper c) (swc c)
                = (case require path of
                     Inl e \<Rightarrow> Inl e
                   | Inr inst \<Rightarrow> Inr (inst, ''@swc/wasm''))
              \<and> create require c
                = (case require path of
                     Inl e \<Rightarrow> Inl e
                   | Inr inst \<Rightarrow>
                       (case createSwcOptions (config_options c) (nodeModuleEmitKind_opt c)
                               inst ''@swc/wasm'' of
                          Inl e \<Rightarrow> Inl e
                        | Inr (n, t) \<Rightarrow> Inr \<lparr>transpile_fn = transpile inst n t\<rparr>)))"
proof -
  have both_fail: "\<forall>e2. transpilerConfigLocalResolveHelper c ''@swc/wasm'' True = Inl e2
      \<longrightarrow> create require c = Inl (Error unresolvableMessage)"
    using assms by (simp add: create_def loadSwc_def)
  have "unresolvableMessage
      = ''swc compiler requires either '' @ ''@swc/core''
        @ '' or @swc/wasm to be installed as a dependency.  See https://typestrong.org/ts-node/docs/transpilers''"
    by (simp add: unresolvableMessage_def)
  then have core: "sublist ''@swc/core'' unresolvableMessage"
    by (metis sublist_appendI)
  have "unresolvableMessage
      = ''swc compiler requires either @swc/core or '' @ ''@swc/wasm''
        @ '' to be installed as a dependency.  See https://typestrong.org/ts-node/docs/transpilers''"
    by (simp add: unresolvableMessage_def)
  then have wasm: "sublist ''@swc/wasm'' unresolvableMessage"
    by (metis sublist_appendI)
  have "unresolvableMessage
      = ''swc compiler requires either @swc/core or @swc/wasm to be installed as a dependency.  ''
        @ ''See https://typestrong.org/ts-node/docs/transpilers'' @ ''''"
    by (simp add: unresolvableMessage_def)
  then have guidance:
    "sublist ''See https://typestrong.org/ts-node/docs/transpilers'' unresolvableMessage"
    by (metis sublist_appendI)
  have fallback: "\<forall>path. transpilerConfigLocalResolveHelper c ''@swc/wasm'' True = Inr path
      \<longrightarrow> loadSwc require (transpilerConfigLocalResolveHelper c) (swc c)
            = (case require path of
                 Inl e \<Rightarrow> Inl e
               | Inr inst \<Rightarrow> Inr (inst, ''@swc/wasm''))
          \<and> create require c
            = (case require path of
                 Inl e \<Rightarrow> Inl e
               | Inr inst \<Rightarrow>
                   (case createSwcOptions (config_options c) (nodeModuleEmitKind_opt c)
                           inst ''@swc/wasm'' of
                      Inl e \<Rightarrow> Inl e
                    | Inr (n, t) \<Rightarrow> Inr \<lparr>transpile_fn = transpile inst n t\<rparr>))"
    using assms by (simp add: create_def loadSwc_def split: sum.splits)
  from both_fail core wasm guidance fallback show ?thesis by blast
qed

text \<open>
  With a helper that resolves nothing, construction fails with the message; with one that
  resolves only \<^verbatim>\<open>@swc/wasm\<close>, the module loaded from that path is the backend.
\<close>

theorem unresolvable_backend_error_witness:
  "swc (createWith SwcAbsent resolveNothing) = SwcAbsent
   \<and> resolveNothing ''@swc/core'' True = Inl (Error ''Cannot find module'')
   \<and> resolveNothing ''@swc/wasm'' True = Inl (Error ''Cannot find module'')
   \<and> create requireRecording (createWith SwcAbsent resolveNothing)
       = Inl (Error unresolvableMessage)
   \<and> resolveWasmOnly ''@swc/core'' True = Inl (Error ''Cannot find module'')
   \<and> resolveWasmOnly ''@swc/wasm'' True = Inr ''/node_modules/@swc/wasm/wasm.js''
   \<and> loadSwc requireRecording resolveWasmOnly SwcAbsent = Inr (recordingSwc, ''@swc/wasm'')"
proof -
  have a1: "swc (createWith SwcAbsent r) = SwcAbsent" for r
    by (simp add: createWith_def)
  have a2: "transpilerConfigLocalResolveHelper (createWith SwcAbsent resolveNothing)
      ''@swc/core'' True = Inl (Error ''Cannot find module'')"
    by (simp add: createWith_def resolveNothing_def)
  have a3: "transpilerConfigLocalResolveHelper (createWith SwcAbsent resolveNothing)
      ''@swc/wasm'' True = Inl (Error ''Cannot find module'')"
    by (simp add: createWith_def resolveNothing_def)
  have b2: "transpilerConfigLocalResolveHelper (createWith SwcAbsent resolveWasmOnly)
      ''@swc/core'' True = Inl (Error ''Cannot find module'')"
    by (simp add: createWith_def resolveWasmOnly_def)
  have b3: "transpilerConfigLocalResolveHelper (createWith SwcAbsent resolveWasmOnly)
      ''@swc/wasm'' True = Inr ''/node_modules/@swc/wasm/wasm.js''"
    by (simp add: createWith_def resolveWasmOnly_def)
  have sel: "transpilerConfigLocalResolveHelper (createWith SwcAbsent r) = r" for r
    by (simp add: createWith_def)
  from unresolvable_backend_error[OF a1 a2, of requireRecording] a3
  have fails: "create requireRecording (createWith SwcAbsent resolveNothing)
      = Inl (Error unresolvableMessage)"
    by blast
  from unresolvable_backend_error[OF a1 b2, of requireRecording] b3
  have "loadSwc requireRecording
      (transpilerConfigLocalResolveHelper (createWith SwcAbsent resolveWasmOnly))
      (swc (createWith SwcAbsent resolveWasmOnly))
      = (case requireRecording ''/node_modules/@swc/wasm/wasm.js'' of
           Inl e \<Rightarrow> Inl e
         | Inr inst \<Rightarrow> Inr (inst, ''@swc/wasm''))"
    by blast
  then have loads: "loadSwc requireRecording resolveWasmOnly SwcAbsent
      = Inr (recordingSwc, ''@swc/wasm'')"
    by (simp add: a1 sel requireRecording_def)
  from a1 a2 a3 b2 b3 fails loads show ?thesis by (simp add: sel)
qed

subsection \<open>The validation gate\<close>




subsection \<open>Dispatch by file name\<close>

text \<open>
  Claim C5. For every call of the \<^verbatim>\<open>transpile\<close> of a constructed transpiler, the markup
  object is used exactly when the file name ends in \<^verbatim>\<open>.tsx\<close> or \<^verbatim>\<open>.jsx\<close> and the plain object
  for every other file name; the backend receives the source text and the chosen object
  extended with the file name; the call returns the backend's \<^verbatim>\<open>code\<close> as \<^verbatim>\<open>outputText\<close>
  and its \<^verbatim>\<open>map\<close>, when present, as \<^verbatim>\<open>sourceMapText\<close>, and fails with the backend's error
  when the backend throws.
\<close>

theorem transpile_selects_by_extension:
  assumes "create require c = Inr tr"
  shows "\<exists>s dep n t.
      loadSwc require (transpilerConfigLocalResolveHelper c) (swc c) = Inr (s, dep)
      \<and> createSwcOptions (config_options c) (nodeModuleEmitKind_opt c) s dep = Inr (n, t)
      \<and> (\<forall>input topts. transpile_fn tr input topts =
            (case transformSync s input
                    ((if suffix ''.tsx'' (fileName topts) \<or> suffix ''.jsx'' (fileName topts)
                      then t else n)\<lparr>filename := Some (fileName topts)\<rparr>) of
               Inl e \<Rightarrow> Inl e
             | Inr r \<Rightarrow> Inr \<lparr>outputText = code r, sourceMapText = map' r\<rparr>))"
proof -
  from assms obtain s dep where
    load: "loadSwc require (transpilerConfigLocalResolveHelper c) (swc c) = Inr (s, dep)"
    by (auto simp: create_def split: sum.splits)
  with assms obtain n t where
    opts: "createSwcOptions (config_options c) (nodeModuleEmitKind_opt c) s dep = Inr (n, t)"
    by (auto simp: create_def split: sum.splits)
  from assms load opts have tr: "tr = \<lparr>transpile_fn = transpile s n t\<rparr>"
    by (simp add: create_def)
  have "transpile_fn tr input topts =
            (case transformSync s input
                    ((if suffix ''.tsx'' (fileName topts) \<or> suffix ''.jsx'' (fileName topts)
                      then t else n)\<lparr>filename := Some (fileName topts)\<rparr>) of
               Inl e \<Rightarrow> Inl e
             | Inr r \<Rightarrow> Inr \<lparr>outputText = code r, sourceMapText = map' r\<rparr>)"
    for input topts
    by (simp add: tr transpile_def endsWith_suffix Let_def)
  with load opts show ?thesis by blast
qed

text \<open>
  With the recording backend, the output tells which object and which file name the
  backend received.
\<close>

theorem transpile_selects_by_extension_witness:
  "\<exists>tr. create requireRecording (createWith (SwcGiven recordingSwc) resolveNothing) = Inr tr
     \<and> transpile_fn tr ''<a/>'' \<lparr>fileName = ''App.tsx''\<rparr>
         = Inr \<lparr>outputText = ''markup:App.tsx'', sourceMapText = Some ''<a/>''\<rparr>
     \<and> transpile_fn tr ''<a/>'' \<lparr>fileName = ''App.jsx''\<rparr>
         = Inr \<lparr>outputText = ''markup:App.jsx'', sourceMapText = Some ''<a/>''\<rparr>
     \<and> transpile_fn tr ''1'' \<lparr>fileName = ''index.ts''\<rparr>
         = Inr \<lparr>outputText = ''plain:index.ts'', sourceMapText = Some ''1''\<rparr>
     \<and> transpile_fn tr ''1'' \<lparr>fileName = ''tsx''\<rparr>
         = Inr \<lparr>outputText = ''plain:tsx'', sourceMapText = Some ''1''\<rparr>"
proof -
  let ?c = "createWith (SwcGiven recordingSwc) resolveNothing"
  let ?n = "swcOptions unsetOptions None (Some ''es3'') False"
  let ?t = "swcOptions unsetOptions None (Some ''es3'') True"
  have tg: "swcTarget recordingSwc (target unsetOptions) = Some ''es3''"
    by (simp add: swcTarget_def unsetOptions_def mappedTarget_def swcTargets_def probe.simps
        recordingSwc_def at_def)
  have acc: "transformSync recordingSwc src opts \<noteq> Inl e" for src opts e
    by (simp add: recordingSwc_def)
  have run: "createSwcOptions unsetOptions None recordingSwc ''swc'' = Inr (?n, ?t)"
    by (simp add: createSwcOptions_cases tg acc split: sum.splits)
  have load: "loadSwc requireRecording (transpilerConfigLocalResolveHelper ?c) (swc ?c)
      = Inr (recordingSwc, ''swc'')"
    by (simp add: loadSwc_def createWith_def)
  have sel: "config_options ?c = unsetOptions \<and> nodeModuleEmitKind_opt ?c = None"
    by (simp add: createWith_def)
  have built: "create requireRecording ?c = Inr \<lparr>transpile_fn = transpile recordingSwc ?n ?t\<rparr>"
    by (simp add: create_def load sel run)
  from transpile_selects_by_extension[OF built] load sel run
  have calls: "transpile_fn \<lparr>transpile_fn = transpile recordingSwc ?n ?t\<rparr> input topts =
      (case transformSync recordingSwc input
              ((if suffix ''.tsx'' (fileName topts) \<or> suffix ''.jsx'' (fileName topts)
                then ?t else ?n)\<lparr>filename := Some (fileName topts)\<rparr>) of
         Inl e \<Rightarrow> Inl e
       | Inr r \<Rightarrow> Inr \<lparr>outputText = code r, sourceMapText = map' r\<rparr>)" for input topts
    by auto
  have "transpile_fn \<lparr>transpile_fn = transpile recordingSwc ?n ?t\<rparr> ''<a/>''
          \<lparr>fileName = ''App.tsx''\<rparr>
         = Inr \<lparr>outputText = ''markup:App.tsx'', sourceMapText = Some ''<a/>''\<rparr>
     \<and> transpile_fn \<lparr>transpile_fn = transpile recordingSwc ?n ?t\<rparr> ''<a/>''
          \<lparr>fileName = ''App.jsx''\<rparr>
         = Inr \<lparr>outputText = ''markup:App.jsx'', sourceMapText = Some ''<a/>''\<rparr>
     \<and> transpile_fn \<lparr>transpile_fn = transpile recordingSwc ?n ?t\<rparr> ''1''
          \<lparr>fileName = ''index.ts''\<rparr>
         = Inr \<lparr>outputText = ''plain:index.ts'', sourceMapText = Some ''1''\<rparr>
     \<and> transpile_fn \<lparr>transpile_fn = transpile recordingSwc ?n ?t\<rparr> ''1''
          \<lparr>fileName = ''tsx''\<rparr>
         = Inr \<lparr>outputText = ''plain:tsx'', sourceMapText = Some ''1''\<rparr>"
    unfolding calls
    by (simp add: suffix_to_prefix recordingSwc_def swcOptions_def)
  with built show ?thesis by blast
qed

end
